theory Spec2Isabelle
  imports Main "HOL-Library.Multiset"
begin

section \<open>The journal's media uploader and entry store\<close>

text \<open>
  A shallow embedding of the two hooks of the journaling application:
  \<^verbatim>\<open>useMediaUpload\<close> (src/hooks/useMediaUpload.ts) and \<^verbatim>\<open>useEntries\<close>
  (the second document of src/components/AppSidebar.tsx).

  React state is passed explicitly and returned updated. The hosted backend
  (tables, object storage) is an explicit remote state; every remote call is
  appended to a trace, so that "no remote work" is the statement that the
  remote state, trace included, is unchanged. Toast notifications and
  console output are presentation and are left out.
\<close>

subsection \<open>JavaScript values and helpers\<close>

text \<open>
  The client library resolves every call to a pair \<^verbatim>\<open>{ data, error }\<close>; exactly one
  of the two is set. It reports a failed request in \<^verbatim>\<open>error\<close> and does not reject the
  promise, so the \<^verbatim>\<open>catch\<close> blocks of the hooks are not entered by any remote failure.
  The one statement modelled here that throws is \<^verbatim>\<open>toISOString\<close> of an invalid date, in
  \<^verbatim>\<open>getEntriesByDate\<close>, and its \<^verbatim>\<open>catch\<close> is a branch of the model.
\<close>

datatype 'a response = Data 'a | Error string

text \<open>The \<^verbatim>\<open>Json\<close> type of src/integrations/supabase/types.ts (numbers kept integral).\<close>

datatype json = JNull | JBool bool | JNum int | JStr string
  | JArr "json list" | JObj "(string \<times> json) list"

text \<open>\<^verbatim>\<open>s || d\<close> on an optional string: \<^verbatim>\<open>undefined\<close> and the empty string are falsy.\<close>

definition truthy :: "string option \<Rightarrow> bool" where
  "truthy x = (case x of None \<Rightarrow> False | Some s \<Rightarrow> s \<noteq> [])"

definition or_null :: "string option \<Rightarrow> string option" where
  "or_null x = (if truthy x then x else None)"

definition or_else :: "string option \<Rightarrow> string \<Rightarrow> string" where
  "or_else x d = (case x of None \<Rightarrow> d | Some s \<Rightarrow> if s \<noteq> [] then s else d)"

text \<open>Decimal rendering of a non-negative integer, as a template string prints it.\<close>

definition digit_char :: "nat \<Rightarrow> char" where
  "digit_char d = ''0123456789'' ! d"

fun string_of_nat :: "nat \<Rightarrow> string" where
  "string_of_nat n =
     (if n < 10 then [digit_char n] else string_of_nat (n div 10) @ [digit_char (n mod 10)])"

declare string_of_nat.simps [simp del]

text \<open>
  \<^verbatim>\<open>s.lastIndexOf(c)\<close> is the index of the last occurrence, or \<open>-1\<close>;
  \<^verbatim>\<open>s.substring(i)\<close> clamps a negative start to \<open>0\<close>.
\<close>

fun lastIndexOf :: "string \<Rightarrow> char \<Rightarrow> int" where
  "lastIndexOf [] c = -1"
| "lastIndexOf (x # xs) c =
     (let i = lastIndexOf xs c in
      if i \<noteq> -1 then i + 1 else if x = c then 0 else -1)"

definition substring :: "string \<Rightarrow> int \<Rightarrow> string" where
  "substring s i = drop (nat (max 0 i)) s"

subsection \<open>Files and validation (useMediaUpload.ts)\<close>

record user =
  uid :: string

text \<open>The three properties of a browser \<^verbatim>\<open>File\<close> that the hook reads.\<close>

record File =
  name :: string
  ftype :: string
  fsize :: nat

record file_type_config =
  mimeTypes :: "string list"
  maxSize :: nat
  extensions :: "string list"

definition images :: file_type_config where
  "images = \<lparr> mimeTypes = [''image/jpeg'', ''image/png'', ''image/gif'', ''image/webp''],
              maxSize = 10 * 1024 * 1024,
              extensions = [''.jpg'', ''.jpeg'', ''.png'', ''.gif'', ''.webp''] \<rparr>"

definition audio :: file_type_config where
  "audio = \<lparr> mimeTypes = [''audio/mpeg'', ''audio/wav'', ''audio/ogg'', ''audio/mp4''],
             maxSize = 50 * 1024 * 1024,
             extensions = [''.mp3'', ''.wav'', ''.ogg'', ''.m4a''] \<rparr>"

definition video :: file_type_config where
  "video = \<lparr> mimeTypes = [''video/mp4'', ''video/webm'', ''video/ogg''],
             maxSize = 100 * 1024 * 1024,
             extensions = [''.mp4'', ''.webm'', ''.ogv''] \<rparr>"

definition documents :: file_type_config where
  "documents = \<lparr> mimeTypes = [''application/pdf'', ''text/plain'', ''application/zip''],
                 maxSize = 25 * 1024 * 1024,
                 extensions = [''.pdf'', ''.txt'', ''.zip''] \<rparr>"

text \<open>\<^verbatim>\<open>Object.values(SUPPORTED_FILE_TYPES)\<close>, in insertion order.\<close>

definition SUPPORTED_FILE_TYPES :: "file_type_config list" where
  "SUPPORTED_FILE_TYPES = [images, audio, video, documents]"

record validation =
  isValid :: bool
  error :: "string option"

text \<open>
  \<^verbatim>\<open>maxSize / (1024 * 1024)\<close> is exact for the four configured ceilings, so the
  integer quotient prints the same text.
\<close>

definition validateFile :: "File \<Rightarrow> validation" where
  "validateFile f =
     (let allSupportedTypes = concat (map mimeTypes SUPPORTED_FILE_TYPES) in
      if \<not> List.member allSupportedTypes (ftype f) then
        \<lparr> isValid = False,
          error = Some (''File type '' @ ftype f @ '' is not supported'') \<rparr>
      else
        (case find (\<lambda>config. List.member (mimeTypes config) (ftype f)) SUPPORTED_FILE_TYPES of
           Some fileTypeConfig \<Rightarrow>
             if fsize f > maxSize fileTypeConfig then
               \<lparr> isValid = False,
                 error = Some (''File size exceeds ''
                   @ string_of_nat (maxSize fileTypeConfig div (1024 * 1024)) @ ''MB limit'') \<rparr>
             else \<lparr> isValid = True, error = None \<rparr>
         | None \<Rightarrow> \<lparr> isValid = True, error = None \<rparr>))"

text \<open>
  \<^verbatim>\<open>Date.now()\<close> and \<^verbatim>\<open>Math.random().toString(36).substring(2)\<close> are read from
  the environment and passed in as \<open>timestamp\<close> and \<open>randomId\<close>.
\<close>

definition generateStoragePath :: "string \<Rightarrow> string \<Rightarrow> nat \<Rightarrow> string \<Rightarrow> string" where
  "generateStoragePath fileName userId timestamp randomId =
     (let extension = substring fileName (lastIndexOf fileName (CHR ''.''))
      in userId @ ''/'' @ string_of_nat timestamp @ ''-'' @ randomId @ extension)"

subsection \<open>Rows of the relations (src/integrations/supabase/types.ts)\<close>

record media =
  m_id :: string
  m_user_id :: string
  m_entry_id :: "string option"
  m_storage_path :: string
  m_file_name :: "string option"
  m_file_size :: "nat option"
  m_mime_type :: "string option"
  m_created_at :: string

text \<open>\<^verbatim>\<open>MediaInsert = Omit<MediaType, 'id' | 'created_at'>\<close>\<close>

record media_insert =
  mi_user_id :: string
  mi_entry_id :: "string option"
  mi_storage_path :: string
  mi_file_name :: "string option"
  mi_file_size :: "nat option"
  mi_mime_type :: "string option"

record entry =
  e_id :: string
  e_user_id :: string
  e_title :: string
  e_content :: json
  e_entry_date :: string
  e_location_text :: "string option"
  e_weather_summary :: "string option"
  e_created_at :: string
  e_updated_at :: string

text \<open>\<^verbatim>\<open>EntryInsert = Omit<Entry, 'id' | 'created_at' | 'updated_at'>\<close>\<close>

record entry_insert =
  i_user_id :: string
  i_title :: string
  i_content :: json
  i_entry_date :: string
  i_location_text :: "string option"
  i_weather_summary :: "string option"

text \<open>\<^verbatim>\<open>EntryUpdate = Partial<EntryInsert>\<close>: \<open>None\<close> is an absent key.\<close>

record entry_update =
  u_user_id :: "string option"
  u_title :: "string option"
  u_content :: "json option"
  u_entry_date :: "string option"
  u_location_text :: "string option option"
  u_weather_summary :: "string option option"

record EntryFormData =
  title :: string
  content :: json
  entry_date :: "string option"
  location_text :: "string option"
  weather_summary :: "string option"
  tags :: "string list option"

subsection \<open>The remote store\<close>

text \<open>
  Modelled from the spec: the hosted relational store and object store, which are
  external services and have no code in the repository. Section 6 of the
  specification gives their interface: select with filter, sort and limit,
  insert-returning, update-by-filter-returning, delete-by-filter, and for the bucket
  \<^verbatim>\<open>upload(path, bytes) \<rightarrow> path\<close> (failing when the path exists, upserts being disabled)
  and \<^verbatim>\<open>remove(paths)\<close>. Each operation takes a \<open>fault\<close>: \<open>Some msg\<close> makes the call
  fail with that message and change nothing, so that every theorem ranges over
  failing and succeeding calls. Identifiers and timestamps that the store generates
  are passed in. A filter that matches no row is not a failure of a delete.
\<close>

datatype call =
    StorageUpload string File
  | StorageRemove "string list"
  | MediaInsert media_insert
  | MediaSelect string string
  | MediaDelete string string
  | EntriesSelect string
  | EntriesInsert entry_insert
  | EntriesUpdate string string entry_update
  | EntriesDelete string string

record remote =
  blobs :: "(string \<times> File) list"
  media_tbl :: "media list"
  entries_tbl :: "entry list"
  calls :: "call list"

definition called :: "call \<Rightarrow> remote \<Rightarrow> remote" where
  "called c r = r\<lparr> calls := calls r @ [c] \<rparr>"

definition storage_upload ::
  "string option \<Rightarrow> string \<Rightarrow> File \<Rightarrow> remote \<Rightarrow> string response \<times> remote" where
  "storage_upload fault path f r =
     (let r1 = called (StorageUpload path f) r in
      case fault of
        Some msg \<Rightarrow> (Error msg, r1)
      | None \<Rightarrow>
          if List.member (map fst (blobs r)) path
          then (Error ''The resource already exists'', r1)
          else (Data path, r1\<lparr> blobs := blobs r @ [(path, f)] \<rparr>))"

definition storage_remove ::
  "string option \<Rightarrow> string list \<Rightarrow> remote \<Rightarrow> unit response \<times> remote" where
  "storage_remove fault paths r =
     (let r1 = called (StorageRemove paths) r in
      case fault of
        Some msg \<Rightarrow> (Error msg, r1)
      | None \<Rightarrow>
          (Data (), r1\<lparr> blobs := filter (\<lambda>b. \<not> List.member paths (fst b)) (blobs r) \<rparr>))"

definition media_row :: "string \<Rightarrow> string \<Rightarrow> media_insert \<Rightarrow> media" where
  "media_row new_id now_db d =
     \<lparr> m_id = new_id, m_user_id = mi_user_id d, m_entry_id = mi_entry_id d,
       m_storage_path = mi_storage_path d, m_file_name = mi_file_name d,
       m_file_size = mi_file_size d, m_mime_type = mi_mime_type d,
       m_created_at = now_db \<rparr>"

definition media_insert_returning ::
  "string option \<Rightarrow> string \<Rightarrow> string \<Rightarrow> media_insert \<Rightarrow> remote \<Rightarrow> media response \<times> remote" where
  "media_insert_returning fault new_id now_db d r =
     (let r1 = called (MediaInsert d) r in
      case fault of
        Some msg \<Rightarrow> (Error msg, r1)
      | None \<Rightarrow>
          (Data (media_row new_id now_db d),
           r1\<lparr> media_tbl := media_tbl r @ [media_row new_id now_db d] \<rparr>))"

text \<open>\<^verbatim>\<open>.single()\<close> fails unless exactly one row is returned.\<close>

definition single :: "'a list \<Rightarrow> 'a response" where
  "single rows =
     (case rows of
        [x] \<Rightarrow> Data x
      | _ \<Rightarrow> Error ''JSON object requested, multiple (or no) rows returned'')"

definition media_select_single ::
  "string option \<Rightarrow> string \<Rightarrow> string \<Rightarrow> remote \<Rightarrow> string response \<times> remote" where
  "media_select_single fault mid owner r =
     (let r1 = called (MediaSelect mid owner) r in
      case fault of
        Some msg \<Rightarrow> (Error msg, r1)
      | None \<Rightarrow>
          (single (map m_storage_path
             (filter (\<lambda>m. m_id m = mid \<and> m_user_id m = owner) (media_tbl r))), r1))"

definition media_delete ::
  "string option \<Rightarrow> string \<Rightarrow> string \<Rightarrow> remote \<Rightarrow> unit response \<times> remote" where
  "media_delete fault mid owner r =
     (let r1 = called (MediaDelete mid owner) r in
      case fault of
        Some msg \<Rightarrow> (Error msg, r1)
      | None \<Rightarrow>
          (Data (), r1\<lparr> media_tbl :=
             filter (\<lambda>m. \<not> (m_id m = mid \<and> m_user_id m = owner)) (media_tbl r) \<rparr>))"

definition entry_row :: "string \<Rightarrow> string \<Rightarrow> entry_insert \<Rightarrow> entry" where
  "entry_row new_id now_db d =
     \<lparr> e_id = new_id, e_user_id = i_user_id d, e_title = i_title d,
       e_content = i_content d, e_entry_date = i_entry_date d,
       e_location_text = i_location_text d, e_weather_summary = i_weather_summary d,
       e_created_at = now_db, e_updated_at = now_db \<rparr>"

definition entries_insert_returning ::
  "string option \<Rightarrow> string \<Rightarrow> string \<Rightarrow> entry_insert \<Rightarrow> remote \<Rightarrow> entry response \<times> remote" where
  "entries_insert_returning fault new_id now_db d r =
     (let r1 = called (EntriesInsert d) r in
      case fault of
        Some msg \<Rightarrow> (Error msg, r1)
      | None \<Rightarrow>
          (Data (entry_row new_id now_db d),
           r1\<lparr> entries_tbl := entries_tbl r @ [entry_row new_id now_db d] \<rparr>))"

definition patch :: "entry_update \<Rightarrow> string \<Rightarrow> entry \<Rightarrow> entry" where
  "patch d updated_at e =
     e\<lparr> e_user_id := (case u_user_id d of None \<Rightarrow> e_user_id e | Some v \<Rightarrow> v),
       e_title := (case u_title d of None \<Rightarrow> e_title e | Some v \<Rightarrow> v),
       e_content := (case u_content d of None \<Rightarrow> e_content e | Some v \<Rightarrow> v),
       e_entry_date := (case u_entry_date d of None \<Rightarrow> e_entry_date e | Some v \<Rightarrow> v),
       e_location_text :=
         (case u_location_text d of None \<Rightarrow> e_location_text e | Some v \<Rightarrow> v),
       e_weather_summary :=
         (case u_weather_summary d of None \<Rightarrow> e_weather_summary e | Some v \<Rightarrow> v),
       e_updated_at := updated_at \<rparr>"

definition entries_update_single ::
  "string option \<Rightarrow> string \<Rightarrow> string \<Rightarrow> entry_update \<Rightarrow> string \<Rightarrow> remote
     \<Rightarrow> entry response \<times> remote" where
  "entries_update_single fault eid owner d updated_at r =
     (let r1 = called (EntriesUpdate eid owner d) r in
      case fault of
        Some msg \<Rightarrow> (Error msg, r1)
      | None \<Rightarrow>
          (single (map (patch d updated_at)
             (filter (\<lambda>e. e_id e = eid \<and> e_user_id e = owner) (entries_tbl r))),
           r1\<lparr> entries_tbl :=
             map (\<lambda>e. if e_id e = eid \<and> e_user_id e = owner then patch d updated_at e else e)
               (entries_tbl r) \<rparr>))"

definition entries_delete ::
  "string option \<Rightarrow> string \<Rightarrow> string \<Rightarrow> remote \<Rightarrow> unit response \<times> remote" where
  "entries_delete fault eid owner r =
     (let r1 = called (EntriesDelete eid owner) r in
      case fault of
        Some msg \<Rightarrow> (Error msg, r1)
      | None \<Rightarrow>
          (Data (), r1\<lparr> entries_tbl :=
             filter (\<lambda>e. \<not> (e_id e = eid \<and> e_user_id e = owner)) (entries_tbl r) \<rparr>))"

text \<open>
  Select of the caller's rows that satisfy \<open>cond\<close>, ordered by \<^verbatim>\<open>entry_date\<close>
  descending, with an optional limit. The column is a timestamp: \<open>ts\<close> reads the
  instant (milliseconds since the epoch) that a stored text denotes. Rows with equal
  dates keep their table order.
\<close>

definition entries_select ::
  "string option \<Rightarrow> string \<Rightarrow> (entry \<Rightarrow> bool) \<Rightarrow> (string \<Rightarrow> int) \<Rightarrow> nat option \<Rightarrow> remote
     \<Rightarrow> entry list response \<times> remote" where
  "entries_select fault owner cond ts lim r =
     (let r1 = called (EntriesSelect owner) r in
      case fault of
        Some msg \<Rightarrow> (Error msg, r1)
      | None \<Rightarrow>
          (let rows = sort_key (\<lambda>e. - ts (e_entry_date e))
                        (filter (\<lambda>e. e_user_id e = owner \<and> cond e) (entries_tbl r))
           in (Data (case lim of None \<Rightarrow> rows | Some n \<Rightarrow> take n rows), r1)))"

subsection \<open>The uploader (useMediaUpload.ts)\<close>

record UploadProgress =
  fileName :: string
  progress :: nat
  isComplete :: bool
  perror :: "string option"

text \<open>The hook's React state.\<close>

record uploader =
  uploading :: bool
  uploadProgress :: "UploadProgress list"

definition updateProgress ::
  "string \<Rightarrow> nat \<Rightarrow> bool \<Rightarrow> string option \<Rightarrow> UploadProgress list \<Rightarrow> UploadProgress list" where
  "updateProgress fname pr done err prev =
     (case find (\<lambda>p. fileName p = fname) prev of
        Some existing \<Rightarrow>
          map (\<lambda>p. if fileName p = fname
                    then p\<lparr> progress := pr, isComplete := done, perror := err \<rparr> else p) prev
      | None \<Rightarrow>
          prev @ [\<lparr> fileName = fname, progress = pr, isComplete = done, perror = err \<rparr>])"

text \<open>
  What one file's iteration reads from its environment: the clock and the random
  token of \<^verbatim>\<open>generateStoragePath\<close>, the outcome of each of its remote calls, and
  the identifier and timestamp the store gives a new media row.
\<close>

record upload_env =
  now :: nat
  randomId :: string
  upload_fault :: "string option"
  insert_fault :: "string option"
  remove_fault :: "string option"
  new_media_id :: string
  media_created_at :: string

text \<open>The variables the loop of \<^verbatim>\<open>uploadFiles\<close> threads through its iterations.\<close>

record upload_state =
  progress_list :: "UploadProgress list"
  uploadedMedia :: "media list"
  store :: remote

text \<open>The object \<^verbatim>\<open>mediaData\<close>; \<open>path\<close> is \<^verbatim>\<open>data.path\<close>, the path the bucket answered.\<close>

definition mediaData :: "user \<Rightarrow> string option \<Rightarrow> string \<Rightarrow> File \<Rightarrow> media_insert" where
  "mediaData u entryId path f =
     \<lparr> mi_user_id = uid u, mi_entry_id = or_null entryId,
       mi_storage_path = path, mi_file_name = Some (name f),
       mi_file_size = Some (fsize f), mi_mime_type = Some (ftype f) \<rparr>"

text \<open>The body of the \<^verbatim>\<open>for\<close> loop; each \<^verbatim>\<open>continue\<close> is a branch that returns.\<close>

definition upload_one ::
  "user \<Rightarrow> string option \<Rightarrow> File \<Rightarrow> upload_env \<Rightarrow> upload_state \<Rightarrow> upload_state" where
  "upload_one u entryId f env s =
     (let v = validateFile f in
      if \<not> isValid v then
        s\<lparr> progress_list := updateProgress (name f) 0 True (error v) (progress_list s) \<rparr>
      else
        let p1 = updateProgress (name f) 0 False None (progress_list s);
            storagePath = generateStoragePath (name f) (uid u) (now env) (randomId env);
            p2 = updateProgress (name f) 50 False None p1;
            (uploaded, r1) = storage_upload (upload_fault env) storagePath f (store s)
        in (case uploaded of
              Error msg \<Rightarrow>
                s\<lparr> progress_list := updateProgress (name f) 0 True (Some msg) p2, store := r1 \<rparr>
            | Data path \<Rightarrow>
                (let (inserted, r2) =
                       media_insert_returning (insert_fault env) (new_media_id env)
                         (media_created_at env) (mediaData u entryId path f) r1
                 in (case inserted of
                       Error msg \<Rightarrow>
                         (let (removed, r3) = storage_remove (remove_fault env) [path] r2
                          in s\<lparr> progress_list :=
                                  updateProgress (name f) 100 True
                                    (Some ''Failed to save file record'') p2,
                                store := r3 \<rparr>)
                     | Data mediaRecord \<Rightarrow>
                         s\<lparr> progress_list := updateProgress (name f) 100 True None p2,
                           uploadedMedia := uploadedMedia s @ [mediaRecord],
                           store := r2 \<rparr>))))"

fun upload_loop ::
  "user \<Rightarrow> string option \<Rightarrow> (File \<times> upload_env) list \<Rightarrow> upload_state \<Rightarrow> upload_state" where
  "upload_loop u entryId [] s = s"
| "upload_loop u entryId ((f, env) # rest) s =
     upload_loop u entryId rest (upload_one u entryId f env s)"

text \<open>
  The result is the returned array, the hook's state when the promise resolves
  (before the timer that clears the progress list three seconds later), and the
  remote store.
\<close>

definition uploadFiles ::
  "user option \<Rightarrow> (File \<times> upload_env) list \<Rightarrow> string option \<Rightarrow> uploader \<times> remote
     \<Rightarrow> media list \<times> uploader \<times> remote" where
  "uploadFiles usr files entryId s =
     (case usr of
        None \<Rightarrow> ([], fst s, snd s)
      | Some u \<Rightarrow>
          (let s1 = upload_loop u entryId files
                      \<lparr> progress_list = [], uploadedMedia = [], store = snd s \<rparr>
           in (uploadedMedia s1,
               \<lparr> uploading = False, uploadProgress = progress_list s1 \<rparr>,
               store s1)))"

definition deleteMedia ::
  "user option \<Rightarrow> string \<Rightarrow> string option \<Rightarrow> string option \<Rightarrow> string option \<Rightarrow> remote
     \<Rightarrow> bool \<times> remote" where
  "deleteMedia usr mediaId fetch_fault storage_fault db_fault r =
     (case usr of
        None \<Rightarrow> (False, r)
      | Some u \<Rightarrow>
          (let (fetched, r1) = media_select_single fetch_fault mediaId (uid u) r
           in (case fetched of
                 Error msg \<Rightarrow> (False, r1)
               | Data storage_path \<Rightarrow>
                   (let (removed, r2) = storage_remove storage_fault [storage_path] r1;
                        (deleted, r3) = media_delete db_fault mediaId (uid u) r2
                    in (case deleted of
                          Error msg \<Rightarrow> (False, r3)
                        | Data ok \<Rightarrow> (True, r3))))))"

subsection \<open>The entry store (useEntries)\<close>

record entry_store =
  entries :: "entry list"
  loading :: bool
  load_error :: "string option"

text \<open>
  \<^verbatim>\<open>trim\<close> strips white space and line terminators. A character here is a code unit
  below 256; among these the ones \<^verbatim>\<open>trim\<close> strips are tab, line feed, vertical tab,
  form feed, carriage return, space and the no-break space.
\<close>

definition is_space :: "char \<Rightarrow> bool" where
  "is_space c =
     List.member [CHR '' '', CHR 0x09, CHR 0x0A, CHR 0x0B, CHR 0x0C, CHR 0x0D, CHR 0xA0] c"

definition trim :: "string \<Rightarrow> string" where
  "trim s = rev (dropWhile is_space (rev (dropWhile is_space s)))"

text \<open>
  \<open>ilike q\<close> stands for the store's reading of the filter
  \<^verbatim>\<open>title.ilike.%q%,content->>'text'.ilike.%q%\<close>, which is evaluated remotely.
\<close>

definition loadEntries ::
  "user option \<Rightarrow> nat \<Rightarrow> string option \<Rightarrow> (string \<Rightarrow> int) \<Rightarrow> (string \<Rightarrow> entry \<Rightarrow> bool)
     \<Rightarrow> string option \<Rightarrow> entry_store \<times> remote \<Rightarrow> entry_store \<times> remote" where
  "loadEntries usr limit searchQuery ts ilike fault s =
     (case usr of
        None \<Rightarrow> ((fst s)\<lparr> loading := False \<rparr>, snd s)
      | Some u \<Rightarrow>
          (let st1 = (fst s)\<lparr> loading := True, load_error := None \<rparr>;
               cond = (case searchQuery of
                         None \<Rightarrow> (\<lambda>e. True)
                       | Some q \<Rightarrow> if q \<noteq> [] \<and> trim q \<noteq> [] then ilike q else (\<lambda>e. True));
               (fetched, r1) = entries_select fault (uid u) cond ts (Some limit) (snd s)
           in (case fetched of
                 Error msg \<Rightarrow>
                   (st1\<lparr> load_error := Some ''Failed to load entries'', loading := False \<rparr>, r1)
               | Data rows \<Rightarrow> (st1\<lparr> entries := rows, loading := False \<rparr>, r1))))"

text \<open>The block "Prepare entry data"; \<open>now_iso\<close> is \<^verbatim>\<open>new Date().toISOString()\<close>.\<close>

definition entryData :: "user \<Rightarrow> EntryFormData \<Rightarrow> string \<Rightarrow> entry_insert" where
  "entryData u d now_iso =
     \<lparr> i_user_id = uid u,
       i_title = title d,
       i_content = JObj [(''text'', content d),
                         (''tags'', JArr (map JStr (case tags d of None \<Rightarrow> [] | Some t \<Rightarrow> t)))],
       i_entry_date = or_else (entry_date d) now_iso,
       i_location_text = or_null (location_text d),
       i_weather_summary = or_null (weather_summary d) \<rparr>"

definition createEntry ::
  "user option \<Rightarrow> EntryFormData \<Rightarrow> string \<Rightarrow> string option \<Rightarrow> string \<Rightarrow> string
     \<Rightarrow> entry_store \<times> remote \<Rightarrow> entry option \<times> entry_store \<times> remote" where
  "createEntry usr d now_iso fault new_id now_db s =
     (case usr of
        None \<Rightarrow> (None, fst s, snd s)
      | Some u \<Rightarrow>
          (let (inserted, r1) =
                 entries_insert_returning fault new_id now_db (entryData u d now_iso) (snd s)
           in (case inserted of
                 Error msg \<Rightarrow> (None, fst s, r1)
               | Data newEntry \<Rightarrow>
                   (Some newEntry, (fst s)\<lparr> entries := newEntry # entries (fst s) \<rparr>, r1))))"

definition updateEntry ::
  "user option \<Rightarrow> string \<Rightarrow> entry_update \<Rightarrow> string \<Rightarrow> string option
     \<Rightarrow> entry_store \<times> remote \<Rightarrow> entry option \<times> entry_store \<times> remote" where
  "updateEntry usr eid d now_iso fault s =
     (case usr of
        None \<Rightarrow> (None, fst s, snd s)
      | Some u \<Rightarrow>
          (let (updated, r1) = entries_update_single fault eid (uid u) d now_iso (snd s)
           in (case updated of
                 Error msg \<Rightarrow> (None, fst s, r1)
               | Data updatedEntry \<Rightarrow>
                   (Some updatedEntry,
                    (fst s)\<lparr> entries :=
                       map (\<lambda>e. if e_id e = eid then updatedEntry else e) (entries (fst s)) \<rparr>,
                    r1))))"

definition deleteEntry ::
  "user option \<Rightarrow> string \<Rightarrow> string option \<Rightarrow> entry_store \<times> remote
     \<Rightarrow> bool \<times> entry_store \<times> remote" where
  "deleteEntry usr eid fault s =
     (case usr of
        None \<Rightarrow> (False, fst s, snd s)
      | Some u \<Rightarrow>
          (let (deleted, r1) = entries_delete fault eid (uid u) (snd s)
           in (case deleted of
                 Error msg \<Rightarrow> (False, fst s, r1)
               | Data ok \<Rightarrow>
                   (True,
                    (fst s)\<lparr> entries := filter (\<lambda>e. e_id e \<noteq> eid) (entries (fst s)) \<rparr>,
                    r1))))"

definition searchEntries ::
  "user option \<Rightarrow> string \<Rightarrow> (string \<Rightarrow> int) \<Rightarrow> (string \<Rightarrow> entry \<Rightarrow> bool) \<Rightarrow> string option
     \<Rightarrow> remote \<Rightarrow> entry list \<times> remote" where
  "searchEntries usr query ts ilike fault r =
     (case usr of
        None \<Rightarrow> ([], r)
      | Some u \<Rightarrow>
          if trim query = [] then ([], r)
          else
            (let (fetched, r1) = entries_select fault (uid u) (ilike query) ts None r
             in (case fetched of
                   Error msg \<Rightarrow> ([], r1)
                 | Data rows \<Rightarrow> (rows, r1))))"

subsection \<open>Dates\<close>

text \<open>
  Time values are milliseconds since the epoch. \<open>days_from_civil\<close> is the day number
  of a date of the proleptic Gregorian calendar (ECMAScript's MakeDay).
\<close>

definition msPerDay :: int where
  "msPerDay = 86400000"

definition days_from_civil :: "int \<Rightarrow> int \<Rightarrow> int \<Rightarrow> int" where
  "days_from_civil y m d =
     (let y1 = (if m \<le> 2 then y - 1 else y);
          era = y1 div 400;
          yoe = y1 - era * 400;
          mp = (m + 9) mod 12;
          doy = (153 * mp + 2) div 5 + d - 1;
          doe = yoe * 365 + yoe div 4 - yoe div 100 + doy
      in era * 146097 + doe - 719468)"

definition digit_val :: "char \<Rightarrow> int option" where
  "digit_val c = map_of (zip ''0123456789'' [0, 1, 2, 3, 4, 5, 6, 7, 8, 9]) c"

fun number_of :: "int \<Rightarrow> string \<Rightarrow> int option" where
  "number_of acc [] = Some acc"
| "number_of acc (c # cs) =
     (case digit_val c of None \<Rightarrow> None | Some v \<Rightarrow> number_of (acc * 10 + v) cs)"

text \<open>
  The date of a date-time string. A month is 1 to 12 and a day 1 to 31; a day past the
  end of its month counts on into the next month, as V8 reads it.
\<close>

definition date_part :: "string \<Rightarrow> int option" where
  "date_part s =
     (if length s = 10 \<and> s ! 4 = CHR ''-'' \<and> s ! 7 = CHR ''-'' then
        (case (number_of 0 (take 4 s), number_of 0 (take 2 (drop 5 s)),
               number_of 0 (drop 8 s)) of
           (Some y, Some m, Some d) \<Rightarrow>
             if 1 \<le> m \<and> m \<le> 12 \<and> 1 \<le> d \<and> d \<le> 31
             then Some (days_from_civil y m d * msPerDay) else None
         | _ \<Rightarrow> None)
      else None)"

text \<open>The time of day: \<^verbatim>\<open>HH:mm\<close>, \<^verbatim>\<open>HH:mm:ss\<close> or \<^verbatim>\<open>HH:mm:ss.sss\<close>.\<close>

definition time_part :: "string \<Rightarrow> int option" where
  "time_part s =
     (if length s = 5 \<and> s ! 2 = CHR '':'' then
        (case (number_of 0 (take 2 s), number_of 0 (drop 3 s)) of
           (Some h, Some mi) \<Rightarrow>
             if h \<le> 23 \<and> mi \<le> 59 then Some (h * 3600000 + mi * 60000) else None
         | _ \<Rightarrow> None)
      else if length s = 8 \<and> s ! 2 = CHR '':'' \<and> s ! 5 = CHR '':'' then
        (case (number_of 0 (take 2 s), number_of 0 (take 2 (drop 3 s)),
               number_of 0 (drop 6 s)) of
           (Some h, Some mi, Some sec) \<Rightarrow>
             if h \<le> 23 \<and> mi \<le> 59 \<and> sec \<le> 59
             then Some (h * 3600000 + mi * 60000 + sec * 1000) else None
         | _ \<Rightarrow> None)
      else if length s = 12 \<and> s ! 2 = CHR '':'' \<and> s ! 5 = CHR '':'' \<and> s ! 8 = CHR ''.'' then
        (case (number_of 0 (take 2 s), number_of 0 (take 2 (drop 3 s)),
               number_of 0 (take 2 (drop 6 s)), number_of 0 (drop 9 s)) of
           (Some h, Some mi, Some sec, Some ms) \<Rightarrow>
             if h \<le> 23 \<and> mi \<le> 59 \<and> sec \<le> 59
             then Some (h * 3600000 + mi * 60000 + sec * 1000 + ms) else None
         | _ \<Rightarrow> None)
      else None)"

text \<open>
  \<^verbatim>\<open>new Date(s)\<close> for the ECMAScript date-time string format in UTC: the date-only
  form \<^verbatim>\<open>YYYY-MM-DD\<close>, which is read as midnight UTC, and a date followed by
  \<^verbatim>\<open>T\<close>, a time of day and \<^verbatim>\<open>Z\<close>, among them the form \<^verbatim>\<open>YYYY-MM-DDTHH:mm:ss.sssZ\<close>
  that \<^verbatim>\<open>toISOString\<close> prints. \<open>None\<close> is an invalid date. Strings with a zone offset
  or without a zone, and the formats outside the standard that an engine may accept,
  are outside the model.
\<close>

definition Date_parse :: "string \<Rightarrow> int option" where
  "Date_parse s =
     (if length s = 10 then date_part s
      else if 11 < length s \<and> s ! 10 = CHR ''T'' \<and> last s = CHR ''Z'' then
        (case (date_part (take 10 s), time_part (butlast (drop 11 s))) of
           (Some d, Some t) \<Rightarrow> Some (d + t)
         | _ \<Rightarrow> None)
      else None)"

text \<open>The instant a stored timestamp text denotes (\<open>0\<close> for a text outside the model).\<close>

definition iso_ms :: "string \<Rightarrow> int" where
  "iso_ms s = (case Date_parse s of None \<Rightarrow> 0 | Some t \<Rightarrow> t)"

text \<open>
  \<^verbatim>\<open>d.setHours(h, m, s, ms)\<close> works in local time. The runtime's zone is a fixed
  offset \<open>tz\<close> in milliseconds, local time minus UTC.
\<close>

definition setHours :: "int \<Rightarrow> int \<Rightarrow> int \<Rightarrow> int \<Rightarrow> int \<Rightarrow> int \<Rightarrow> int" where
  "setHours tz t h m s ms =
     (let local = t + tz;
          day = local - local mod msPerDay
      in day + h * 3600000 + m * 60000 + s * 1000 + ms - tz)"

text \<open>
  The bounds travel as ISO texts; the model hands the store the instants they denote.
  \<^verbatim>\<open>toISOString\<close> of an invalid date throws, the \<^verbatim>\<open>catch\<close> returns \<^verbatim>\<open>[]\<close>, and no
  request has been sent.
\<close>

definition getEntriesByDate ::
  "user option \<Rightarrow> string \<Rightarrow> int \<Rightarrow> (string \<Rightarrow> int) \<Rightarrow> string option \<Rightarrow> remote
     \<Rightarrow> entry list \<times> remote" where
  "getEntriesByDate usr date tz ts fault r =
     (case usr of
        None \<Rightarrow> ([], r)
      | Some u \<Rightarrow>
          (case Date_parse date of
             None \<Rightarrow> ([], r)
           | Some t \<Rightarrow>
               (let startOfDay = setHours tz t 0 0 0 0;
                    endOfDay = setHours tz t 23 59 59 999;
                    (fetched, r1) =
                      entries_select fault (uid u)
                        (\<lambda>e. startOfDay \<le> ts (e_entry_date e) \<and> ts (e_entry_date e) \<le> endOfDay)
                        ts None r
                in (case fetched of
                      Error msg \<Rightarrow> ([], r1)
                    | Data rows \<Rightarrow> (rows, r1)))))"

subsection \<open>Example data\<close>

text \<open>Concrete users, rows and stores at which the theorems below are instantiated.\<close>

definition alice :: user where
  "alice = \<lparr> uid = ''u1'' \<rparr>"

definition row_of :: "string \<Rightarrow> string \<Rightarrow> string \<Rightarrow> entry" where
  "row_of rid owner date =
     \<lparr> e_id = rid, e_user_id = owner, e_title = ''Notes'',
       e_content = JObj [(''text'', JStr ''quiet''), (''tags'', JArr [])],
       e_entry_date = date, e_location_text = None, e_weather_summary = None,
       e_created_at = date, e_updated_at = date \<rparr>"

definition empty_remote :: remote where
  "empty_remote = \<lparr> blobs = [], media_tbl = [], entries_tbl = [], calls = [] \<rparr>"

definition empty_store :: entry_store where
  "empty_store = \<lparr> entries = [], loading = False, load_error = None \<rparr>"

definition idle_uploader :: uploader where
  "idle_uploader = \<lparr> uploading = False, uploadProgress = [] \<rparr>"

definition blank_form :: EntryFormData where
  "blank_form =
     \<lparr> title = ''Walk'', content = JStr ''quiet'', entry_date = Some [],
       location_text = Some [], weather_summary = Some [], tags = Some [''park''] \<rparr>"

definition png :: File where
  "png = \<lparr> name = ''photo.png'', ftype = ''image/png'', fsize = 2048 \<rparr>"

definition exe :: File where
  "exe = \<lparr> name = ''tool.exe'', ftype = ''application/x-msdownload'', fsize = 10 \<rparr>"

definition mp3 :: File where
  "mp3 = \<lparr> name = ''song.mp3'', ftype = ''audio/mpeg'', fsize = 4096 \<rparr>"

definition env_at :: "nat \<Rightarrow> string \<Rightarrow> string option \<Rightarrow> string \<Rightarrow> upload_env" where
  "env_at t token ins_fault new_id =
     \<lparr> now = t, randomId = token, upload_fault = None, insert_fault = ins_fault,
       remove_fault = None, new_media_id = new_id,
       media_created_at = ''2024-12-26T10:00:00.000Z'' \<rparr>"

definition one_row_remote :: remote where
  "one_row_remote =
     \<lparr> blobs = [], media_tbl = [],
       entries_tbl = [row_of ''e1'' ''u1'' ''2024-12-27T08:00:00.000Z'',
                      row_of ''e2'' ''u2'' ''2024-12-27T09:00:00.000Z''],
       calls = [] \<rparr>"

definition one_row_store :: entry_store where
  "one_row_store =
     \<lparr> entries = [row_of ''e1'' ''u1'' ''2024-12-27T08:00:00.000Z''], loading = False,
       load_error = None \<rparr>"

definition past_form :: EntryFormData where
  "past_form =
     \<lparr> title = ''Yesterday'', content = JStr ''rain'',
       entry_date = Some ''2024-12-26T08:00:00.000Z'',
       location_text = Some [], weather_summary = None, tags = None \<rparr>"

definition full_form :: EntryFormData where
  "full_form =
     \<lparr> title = ''Walk'', content = JStr ''quiet'',
       entry_date = Some ''2024-12-28T08:00:00.000Z'',
       location_text = Some ''Park'', weather_summary = Some ''Sunny'',
       tags = Some [''park'', ''dog''] \<rparr>"

definition day_remote :: remote where
  "day_remote =
     \<lparr> blobs = [], media_tbl = [],
       entries_tbl = [row_of ''eve'' ''u1'' ''2024-12-25T12:00:00.000Z'',
                      row_of ''start'' ''u1'' ''2024-12-26T00:00:00.000Z'',
                      row_of ''late'' ''u1'' ''2024-12-26T23:59:59.999Z'',
                      row_of ''next'' ''u1'' ''2024-12-27T00:00:00.000Z'',
                      row_of ''other'' ''u2'' ''2024-12-26T12:00:00.000Z''],
       calls = [] \<rparr>"

section \<open>Properties\<close>

subsection \<open>File validation\<close>

lemma find_config:
  "find (\<lambda>config. List.member (mimeTypes config) t) SUPPORTED_FILE_TYPES =
     (if t \<in> set (mimeTypes images) then Some images
      else if t \<in> set (mimeTypes audio) then Some audio
      else if t \<in> set (mimeTypes video) then Some video
      else if t \<in> set (mimeTypes documents) then Some documents else None)"
  by (simp add: SUPPORTED_FILE_TYPES_def)

text \<open>
  Claim C4. \<open>validateFile\<close> accepts a file exactly when its declared MIME type is in
  the table and its size is at most the ceiling of that type's category: 10 MB for
  images, 50 MB for audio, 100 MB for video, 25 MB for documents. A rejected file,
  and only a rejected file, carries a reason. The function reads nothing but its
  argument.
\<close>

theorem validateFile_valid_iff:
  "isValid (validateFile f) =
     ((ftype f \<in> {''image/jpeg'', ''image/png'', ''image/gif'', ''image/webp''}
         \<and> fsize f \<le> 10 * 1024 * 1024)
      \<or> (ftype f \<in> {''audio/mpeg'', ''audio/wav'', ''audio/ogg'', ''audio/mp4''}
         \<and> fsize f \<le> 50 * 1024 * 1024)
      \<or> (ftype f \<in> {''video/mp4'', ''video/webm'', ''video/ogg''}
         \<and> fsize f \<le> 100 * 1024 * 1024)
      \<or> (ftype f \<in> {''application/pdf'', ''text/plain'', ''application/zip''}
         \<and> fsize f \<le> 25 * 1024 * 1024))
   \<and> (error (validateFile f) = None) = isValid (validateFile f)"
  unfolding validateFile_def Let_def find_config
  by (auto simp: SUPPORTED_FILE_TYPES_def images_def audio_def video_def documents_def)

text \<open>At the boundary: an image of exactly 10 MB passes, one byte more does not.\<close>

theorem validateFile_valid_iff_witness:
  "isValid (validateFile \<lparr> name = ''a.png'', ftype = ''image/png'', fsize = 10485760 \<rparr>)
   \<and> \<not> isValid (validateFile \<lparr> name = ''a.png'', ftype = ''image/png'', fsize = 10485761 \<rparr>)
   \<and> \<not> isValid (validateFile \<lparr> name = ''a.bmp'', ftype = ''image/bmp'', fsize = 1 \<rparr>)"
  using validateFile_valid_iff [of "\<lparr> name = ''a.png'', ftype = ''image/png'', fsize = 10485760 \<rparr>"]
    validateFile_valid_iff [of "\<lparr> name = ''a.png'', ftype = ''image/png'', fsize = 10485761 \<rparr>"]
    validateFile_valid_iff [of "\<lparr> name = ''a.bmp'', ftype = ''image/bmp'', fsize = 1 \<rparr>"]
  by simp

subsection \<open>Operations without a signed-in user\<close>

text \<open>
  Claim C6. Without an authenticated user no operation touches the remote store (its
  tables, its bucket and the trace of calls are what they were): \<open>uploadFiles\<close>
  returns the empty sequence, \<open>createEntry\<close> and \<open>updateEntry\<close> return null,
  \<open>deleteEntry\<close> and \<open>deleteMedia\<close> return false, and the list, search and date
  queries send nothing.
\<close>

theorem unauthenticated_no_remote_work:
  "uploadFiles None files entryId (up, r) = ([], up, r)
   \<and> createEntry None d now_iso fault new_id now_db (st, r) = (None, st, r)
   \<and> updateEntry None eid upd now_iso fault (st, r) = (None, st, r)
   \<and> deleteEntry None eid fault (st, r) = (False, st, r)
   \<and> deleteMedia None mediaId fetch_fault storage_fault db_fault r = (False, r)
   \<and> loadEntries None limit searchQuery ts ilike fault (st, r) = (st\<lparr> loading := False \<rparr>, r)
   \<and> searchEntries None query ts ilike fault r = ([], r)
   \<and> getEntriesByDate None date tz ts fault r = ([], r)"
  by (simp add: uploadFiles_def createEntry_def updateEntry_def deleteEntry_def deleteMedia_def
      loadEntries_def searchEntries_def getEntriesByDate_def)

subsection \<open>A failed load keeps the list\<close>

text \<open>
  Claim C8. When the fetch of \<open>loadEntries\<close> fails, whatever the message and whatever
  the list held before, the in-memory entries are the ones from before the call and
  the error state is set.
\<close>

theorem loadEntries_failure_keeps_entries:
  "fst (entries_select (Some msg) (uid u) cond ts lim r) = Error msg
   \<and> entries (fst (loadEntries (Some u) limit searchQuery ts ilike (Some msg) (st, r)))
       = entries st
   \<and> load_error (fst (loadEntries (Some u) limit searchQuery ts ilike (Some msg) (st, r)))
       = Some ''Failed to load entries''"
  by (simp add: loadEntries_def entries_select_def Let_def split: option.splits)

subsection \<open>Defaults of a new entry\<close>

text \<open>
  Claim C10. \<open>createEntry\<close> applies its defaults by falsiness: a location or weather
  text that is the empty string is stored as null, exactly as an absent one is, and an
  empty entry date is replaced by the current timestamp; any other supplied text is
  stored as it is.
\<close>

theorem createEntry_falsy_defaults:
  assumes "createEntry (Some u) d now_iso None new_id now_db (st, r) = (res, st', r')"
  shows "\<exists>e. res = Some e
     \<and> entries_tbl r' = entries_tbl r @ [e]
     \<and> e_location_text e = (if location_text d = Some [] then None else location_text d)
     \<and> e_weather_summary e = (if weather_summary d = Some [] then None else weather_summary d)
     \<and> e_entry_date e =
         (case entry_date d of None \<Rightarrow> now_iso | Some s \<Rightarrow> if s = [] then now_iso else s)"
  using assms
  by (auto simp: createEntry_def entries_insert_returning_def called_def entry_row_def
      entryData_def or_null_def or_else_def truthy_def Let_def split: option.splits)

text \<open>A form whose three optional texts are empty strings.\<close>

theorem createEntry_falsy_defaults_witness:
  "\<exists>e. fst (createEntry (Some alice) blank_form ''2024-12-26T10:00:00.000Z'' None ''e1''
            ''2024-12-26T10:00:00.001Z'' (empty_store, empty_remote)) = Some e
     \<and> e_location_text e = None \<and> e_weather_summary e = None
     \<and> e_entry_date e = ''2024-12-26T10:00:00.000Z''"
  using createEntry_falsy_defaults [of alice blank_form "''2024-12-26T10:00:00.000Z''" "''e1''"
      "''2024-12-26T10:00:00.001Z''" empty_store empty_remote
      "fst (createEntry (Some alice) blank_form ''2024-12-26T10:00:00.000Z'' None ''e1''
            ''2024-12-26T10:00:00.001Z'' (empty_store, empty_remote))"
      "fst (snd (createEntry (Some alice) blank_form ''2024-12-26T10:00:00.000Z'' None ''e1''
            ''2024-12-26T10:00:00.001Z'' (empty_store, empty_remote)))"
      "snd (snd (createEntry (Some alice) blank_form ''2024-12-26T10:00:00.000Z'' None ''e1''
            ''2024-12-26T10:00:00.001Z'' (empty_store, empty_remote)))"]
  by (auto simp: blank_form_def)

subsection \<open>The upload loop\<close>

lemma upload_loop_append:
  "upload_loop u eid (xs @ ys) s = upload_loop u eid ys (upload_loop u eid xs s)"
  by (induction xs arbitrary: s) auto

lemma storage_upload_Data:
  "fst (storage_upload fault sp f r) = Data p \<Longrightarrow>
     p = sp \<and> fault = None \<and> sp \<notin> fst ` set (blobs r)"
  by (auto simp: storage_upload_def Let_def called_def split: option.splits if_splits)

lemma storage_upload_ok:
  "sp \<notin> fst ` set (blobs r) \<Longrightarrow>
     storage_upload None sp f r =
       (Data sp, r\<lparr> calls := calls r @ [StorageUpload sp f], blobs := blobs r @ [(sp, f)] \<rparr>)"
  by (auto simp: storage_upload_def Let_def called_def)

lemma remove_written:
  "sp \<notin> fst ` set bs \<Longrightarrow> filter (\<lambda>b. fst b \<noteq> sp) bs = bs"
  by (induction bs) auto


lemma upload_one_compensate:
  assumes "isValid (validateFile f)" "sp \<notin> fst ` set (blobs (store s))"
    "upload_fault env = None" "insert_fault env = Some msg"
    "sp = generateStoragePath (name f) (uid u) (now env) (randomId env)"
  shows "store (upload_one u eid f env s) =
      (store s)\<lparr> calls := calls (store s) @ [StorageUpload sp f, MediaInsert (mediaData u eid sp f),
                    StorageRemove [sp]],
                 blobs := (if remove_fault env = None then blobs (store s) else blobs (store s) @ [(sp, f)]) \<rparr>"
    and "uploadedMedia (upload_one u eid f env s) = uploadedMedia s"
  using assms
  by (simp_all add: upload_one_def Let_def storage_upload_ok media_insert_returning_def
      storage_remove_def called_def remove_written split: option.splits)


lemma upload_one_acc:
  "upload_one u eid f env (s\<lparr> uploadedMedia := m \<rparr>) =
     (upload_one u eid f env (s\<lparr> uploadedMedia := [] \<rparr>))
       \<lparr> uploadedMedia := m @ uploadedMedia (upload_one u eid f env (s\<lparr> uploadedMedia := [] \<rparr>)) \<rparr>"
  by (auto simp: upload_one_def Let_def split: prod.splits response.splits)

lemma upload_loop_acc:
  "upload_loop u eid xs (s\<lparr> uploadedMedia := m \<rparr>) =
     (upload_loop u eid xs (s\<lparr> uploadedMedia := [] \<rparr>))
       \<lparr> uploadedMedia := m @ uploadedMedia (upload_loop u eid xs (s\<lparr> uploadedMedia := [] \<rparr>)) \<rparr>"
proof (induction xs arbitrary: s m)
  case Nil
  then show ?case by simp
next
  case (Cons x xs)
  obtain f env where x: "x = (f, env)" by (cases x)
  let ?t = "upload_one u eid f env (s\<lparr> uploadedMedia := [] \<rparr>)"
  have "upload_loop u eid (x # xs) (s\<lparr> uploadedMedia := m \<rparr>) =
          upload_loop u eid xs (?t\<lparr> uploadedMedia := m @ uploadedMedia ?t \<rparr>)"
    using upload_one_acc [where u = u and eid = eid and f = f and env = env and s = s and m = m]
    by (simp add: x)
  also have "\<dots> = (upload_loop u eid xs (?t\<lparr> uploadedMedia := [] \<rparr>))
       \<lparr> uploadedMedia := (m @ uploadedMedia ?t) @
            uploadedMedia (upload_loop u eid xs (?t\<lparr> uploadedMedia := [] \<rparr>)) \<rparr>"
    by (rule Cons.IH)
  finally have lhs: "upload_loop u eid (x # xs) (s\<lparr> uploadedMedia := m \<rparr>) =
      (upload_loop u eid xs (?t\<lparr> uploadedMedia := [] \<rparr>))
       \<lparr> uploadedMedia := (m @ uploadedMedia ?t) @
            uploadedMedia (upload_loop u eid xs (?t\<lparr> uploadedMedia := [] \<rparr>)) \<rparr>" .
  have "upload_loop u eid (x # xs) (s\<lparr> uploadedMedia := [] \<rparr>) =
          upload_loop u eid xs (?t\<lparr> uploadedMedia := uploadedMedia ?t \<rparr>)"
    by (simp add: x)
  also have "\<dots> = (upload_loop u eid xs (?t\<lparr> uploadedMedia := [] \<rparr>))
       \<lparr> uploadedMedia := uploadedMedia ?t @
            uploadedMedia (upload_loop u eid xs (?t\<lparr> uploadedMedia := [] \<rparr>)) \<rparr>"
    by (rule Cons.IH)
  finally have rhs: "upload_loop u eid (x # xs) (s\<lparr> uploadedMedia := [] \<rparr>) =
      (upload_loop u eid xs (?t\<lparr> uploadedMedia := [] \<rparr>))
       \<lparr> uploadedMedia := uploadedMedia ?t @
            uploadedMedia (upload_loop u eid xs (?t\<lparr> uploadedMedia := [] \<rparr>)) \<rparr>" .
  show ?case unfolding lhs rhs by simp
qed

lemma upload_loop_results:
  "uploadedMedia (upload_loop u eid xs s) =
     uploadedMedia s @ uploadedMedia (upload_loop u eid xs (s\<lparr> uploadedMedia := [] \<rparr>))"
  using upload_loop_acc [where u = u and eid = eid and xs = xs and s = s and m = "uploadedMedia s"]
  by simp




text \<open>Evaluation of the uploader on the example data.\<close>

lemmas upload_eval =
  uploadFiles_def upload_one_def validateFile_def SUPPORTED_FILE_TYPES_def images_def audio_def
  video_def documents_def generateStoragePath_def substring_def string_of_nat.simps
  digit_char_def storage_upload_def storage_remove_def media_insert_returning_def media_row_def
  mediaData_def called_def updateProgress_def or_null_def truthy_def Let_def
  png_def exe_def mp3_def env_at_def alice_def empty_remote_def idle_uploader_def

subsection \<open>Compensation after a failed insert\<close>

text \<open>
  Claim C1. Take any batch and any file \<open>f\<close> in it, after the files \<open>pre\<close> and before
  the files \<open>post\<close>. If \<open>f\<close> is valid, its blob write succeeds and its media insert
  fails, then the iteration for \<open>f\<close> makes exactly three remote calls, the upload, the
  insert and the removal of the blob at the generated storage path; the loop goes on
  to \<open>post\<close> only from the state after that removal; no media row and no returned record
  comes from \<open>f\<close>: the returned sequence is the records of \<open>pre\<close> followed by those of
  \<open>post\<close>. The removal is best effort: when it succeeds the bucket is what it was
  before \<open>f\<close>, with no blob at the path.
\<close>

theorem upload_compensates:
  fixes u :: user and f :: File and env :: upload_env and eid :: "string option"
    and pre :: "(File \<times> upload_env) list" and r :: remote
  defines "sp \<equiv> generateStoragePath (name f) (uid u) (now env) (randomId env)"
  defines "s1 \<equiv> upload_loop u eid pre \<lparr> progress_list = [], uploadedMedia = [], store = r \<rparr>"
  defines "s2 \<equiv> upload_one u eid f env s1"
  assumes valid: "isValid (validateFile f)"
    and written: "fst (storage_upload (upload_fault env) sp f (store s1)) = Data p"
    and failed: "insert_fault env = Some msg"
  shows "p = sp
     \<and> calls (store s2) = calls (store s1) @
          [StorageUpload sp f, MediaInsert (mediaData u eid sp f), StorageRemove [sp]]
     \<and> media_tbl (store s2) = media_tbl (store s1)
     \<and> uploadedMedia s2 = uploadedMedia s1
     \<and> blobs (store s2) =
          (if remove_fault env = None then blobs (store s1) else blobs (store s1) @ [(sp, f)])
     \<and> sp \<notin> fst ` set (blobs (store s1))
     \<and> uploadFiles (Some u) (pre @ (f, env) # post) eid (up, r) =
          (uploadedMedia (upload_loop u eid post s2),
           \<lparr> uploading = False, uploadProgress = progress_list (upload_loop u eid post s2) \<rparr>,
           store (upload_loop u eid post s2))
     \<and> fst (uploadFiles (Some u) (pre @ (f, env) # post) eid (up, r)) =
          uploadedMedia s1 @ uploadedMedia (upload_loop u eid post (s2\<lparr> uploadedMedia := [] \<rparr>))"
proof -
  from written have p: "p = sp" and nofault: "upload_fault env = None"
    and fresh: "sp \<notin> fst ` set (blobs (store s1))"
    using storage_upload_Data by blast+
  have st: "store s2 = (store s1)\<lparr> calls := calls (store s1) @
        [StorageUpload sp f, MediaInsert (mediaData u eid sp f), StorageRemove [sp]],
      blobs := (if remove_fault env = None then blobs (store s1)
                else blobs (store s1) @ [(sp, f)]) \<rparr>"
    and um: "uploadedMedia s2 = uploadedMedia s1"
    unfolding s2_def
    using upload_one_compensate [OF valid fresh nofault failed] by (simp_all add: sp_def)
  have run: "upload_loop u eid (pre @ (f, env) # post)
        \<lparr> progress_list = [], uploadedMedia = [], store = r \<rparr> = upload_loop u eid post s2"
    by (simp add: upload_loop_append s1_def s2_def)
  have res: "uploadedMedia (upload_loop u eid post s2) =
      uploadedMedia s1 @ uploadedMedia (upload_loop u eid post (s2\<lparr> uploadedMedia := [] \<rparr>))"
    using upload_loop_results [where s = s2] by (simp add: um)
  show ?thesis
    using p fresh res by (simp add: st um uploadFiles_def run Let_def)
qed

text \<open>
  Three files, the second of which is written and then refused by the table: its blob
  is removed before the third upload starts, and two records are returned.
\<close>

theorem upload_compensates_witness:
  "map m_file_name (fst (uploadFiles (Some alice)
        [(png, env_at 1735171200000 ''k3x9'' None ''m1''),
         (mp3, env_at 1735171200001 ''q7'' (Some ''row rejected'') ''m2''),
         (png, env_at 1735171200002 ''z1'' None ''m3'')] None (idle_uploader, empty_remote)))
     = [Some ''photo.png'', Some ''photo.png'']
   \<and> map fst (blobs (snd (snd (uploadFiles (Some alice)
        [(png, env_at 1735171200000 ''k3x9'' None ''m1''),
         (mp3, env_at 1735171200001 ''q7'' (Some ''row rejected'') ''m2''),
         (png, env_at 1735171200002 ''z1'' None ''m3'')] None (idle_uploader, empty_remote)))))
     = [''u1/1735171200000-k3x9.png'', ''u1/1735171200002-z1.png'']
   \<and> calls (store (upload_one alice None mp3 (env_at 1735171200001 ''q7'' (Some ''row rejected'') ''m2'')
        (upload_loop alice None [(png, env_at 1735171200000 ''k3x9'' None ''m1'')]
          \<lparr> progress_list = [], uploadedMedia = [], store = empty_remote \<rparr>)))
     = [StorageUpload ''u1/1735171200000-k3x9.png'' png,
        MediaInsert (mediaData alice None ''u1/1735171200000-k3x9.png'' png),
        StorageUpload ''u1/1735171200001-q7.mp3'' mp3,
        MediaInsert (mediaData alice None ''u1/1735171200001-q7.mp3'' mp3),
        StorageRemove [''u1/1735171200001-q7.mp3'']]"
  using upload_compensates [where u = alice and f = mp3
      and env = "env_at 1735171200001 ''q7'' (Some ''row rejected'') ''m2''"
      and eid = None and pre = "[(png, env_at 1735171200000 ''k3x9'' None ''m1'')]"
      and r = empty_remote and p = "''u1/1735171200001-q7.mp3''" and msg = "''row rejected''"
      and post = "[(png, env_at 1735171200002 ''z1'' None ''m3'')]" and up = idle_uploader]
  by (simp add: upload_eval)

subsection \<open>Independence of the files of a batch\<close>



subsection \<open>Storage paths\<close>

lemma digit_char_digit: "d < 10 \<Longrightarrow> digit_char d \<in> set ''0123456789''"
  unfolding digit_char_def by (rule nth_mem) simp

lemma digit_val_digit_char: "d < 10 \<Longrightarrow> digit_val (digit_char d) = Some (int d)"
proof -
  assume "d < 10"
  then have "d \<in> {0, 1, 2, 3, 4, 5, 6, 7, 8, 9}" by auto
  then show ?thesis
    by (auto simp: digit_char_def digit_val_def)
qed

lemma digit_char_inj:
  assumes "a < 10" "b < 10" "digit_char a = digit_char b"
  shows "a = b"
proof -
  have "Some (int a) = digit_val (digit_char a)"
    using assms(1) by (simp only: digit_val_digit_char)
  also have "\<dots> = digit_val (digit_char b)"
    by (simp only: assms(3))
  also have "\<dots> = Some (int b)"
    using assms(2) by (simp only: digit_val_digit_char)
  finally show ?thesis by simp
qed

lemma split_at_first:
  "c \<notin> set a \<Longrightarrow> c \<notin> set b \<Longrightarrow> (a @ c # x = b @ c # y) = (a = b \<and> x = y)"
proof (induction a arbitrary: b)
  case Nil
  then show ?case by (cases b) auto
next
  case (Cons h a)
  then show ?case by (cases b) auto
qed

lemma last_split_unique:
  assumes "a @ c # x = b @ c # y" "c \<notin> set x" "c \<notin> set y"
  shows "x = y"
proof -
  have "rev (a @ c # x) = rev (b @ c # y)"
    by (simp only: assms(1))
  then have "rev x @ c # rev a = rev y @ c # rev b"
    by simp
  moreover have "c \<notin> set (rev x)" "c \<notin> set (rev y)"
    using assms(2,3) by simp_all
  ultimately have "rev x = rev y"
    using split_at_first [of c "rev x" "rev y" "rev a" "rev b"] by blast
  then show ?thesis by simp
qed

lemma string_of_nat_digits: "set (string_of_nat n) \<subseteq> set ''0123456789''"
proof (induction n rule: string_of_nat.induct)
  case (1 n)
  show ?case
  proof (cases "n < 10")
    case True
    then show ?thesis
      using digit_char_digit [of n] by (subst string_of_nat.simps) simp
  next
    case False
    have "n mod 10 < 10" by simp
    then have "digit_char (n mod 10) \<in> set ''0123456789''" by (rule digit_char_digit)
    with False "1.IH" show ?thesis
      by (subst string_of_nat.simps) simp
  qed
qed

lemma string_of_nat_no_dash: "CHR ''-'' \<notin> set (string_of_nat n)"
  using string_of_nat_digits [of n] by auto

lemma string_of_nat_nonempty: "string_of_nat n \<noteq> []"
  by (subst string_of_nat.simps) simp

lemma string_of_nat_inj: "string_of_nat n = string_of_nat m \<Longrightarrow> n = m"
proof (induction n arbitrary: m rule: string_of_nat.induct)
  case (1 n)
  show ?case
  proof (cases "n < 10")
    case small_n: True
    show ?thesis
    proof (cases "m < 10")
      case True
      with small_n "1.prems" show ?thesis
        by (simp add: string_of_nat.simps [of n] string_of_nat.simps [of m] digit_char_inj)
    next
      case False
      with small_n "1.prems" string_of_nat_nonempty [of "m div 10"] show ?thesis
        by (simp add: string_of_nat.simps [of n] string_of_nat.simps [of m])
    qed
  next
    case big_n: False
    show ?thesis
    proof (cases "m < 10")
      case True
      with big_n "1.prems" string_of_nat_nonempty [of "n div 10"] show ?thesis
        by (simp add: string_of_nat.simps [of n] string_of_nat.simps [of m])
    next
      case False
      with big_n "1.prems" have eq: "string_of_nat (n div 10) = string_of_nat (m div 10)"
        and last: "digit_char (n mod 10) = digit_char (m mod 10)"
        by (simp_all add: string_of_nat.simps [of n] string_of_nat.simps [of m])
      from "1.IH" [OF big_n eq] have "n div 10 = m div 10" .
      moreover from last have "n mod 10 = m mod 10"
        by (intro digit_char_inj) simp_all
      ultimately show ?thesis
        by (metis div_mult_mod_eq)
    qed
  qed
qed

lemma lastIndexOf_absent: "c \<notin> set s \<Longrightarrow> lastIndexOf s c = -1"
  by (induction s) (auto simp: Let_def)

lemma lastIndexOf_last: "c \<notin> set ext \<Longrightarrow> lastIndexOf (stem @ c # ext) c = int (length stem)"
  by (induction stem) (auto simp: Let_def lastIndexOf_absent)

lemma extension_after_last_dot:
  "CHR ''.'' \<notin> set ext \<Longrightarrow>
     substring (stem @ CHR ''.'' # ext) (lastIndexOf (stem @ CHR ''.'' # ext) (CHR ''.''))
       = CHR ''.'' # ext"
  by (simp add: lastIndexOf_last substring_def)

lemma path_of_dotted:
  "CHR ''.'' \<notin> set ext \<Longrightarrow>
     generateStoragePath (stem @ CHR ''.'' # ext) userId t token =
       userId @ ''/'' @ string_of_nat t @ ''-'' @ token @ CHR ''.'' # ext"
  by (simp add: generateStoragePath_def extension_after_last_dot Let_def)

text \<open>
  Claim C9, as amended. For a file name that contains a dot, the storage path is
  \<open>userId/timestamp-token.ext\<close>, where \<open>.ext\<close> is the part of the name from its last
  dot. Paths are collision resistant, not collision free: with tokens of base-36
  digits, two uploads of one user get the same path exactly when they have the same
  timestamp, the same token and the same extension; uploads that differ in the
  timestamp or in the token never collide, whatever the file names.
\<close>

theorem storage_path_form:
  assumes dotted: "CHR ''.'' \<in> set n1" "CHR ''.'' \<in> set n2"
    and tokens: "CHR ''.'' \<notin> set r1" "CHR ''.'' \<notin> set r2"
  shows "(\<exists>stem ext. n1 = stem @ CHR ''.'' # ext \<and> CHR ''.'' \<notin> set ext
           \<and> generateStoragePath n1 userId t1 r1 =
               userId @ ''/'' @ string_of_nat t1 @ ''-'' @ r1 @ CHR ''.'' # ext)
     \<and> (generateStoragePath n1 userId t1 r1 = generateStoragePath n2 userId t2 r2) =
         (t1 = t2 \<and> r1 = r2
          \<and> (\<exists>stem1 stem2 ext. n1 = stem1 @ CHR ''.'' # ext \<and> n2 = stem2 @ CHR ''.'' # ext
                \<and> CHR ''.'' \<notin> set ext))"
proof -
  from dotted obtain a1 x1 a2 x2 where
    n1: "n1 = a1 @ CHR ''.'' # x1" "CHR ''.'' \<notin> set x1" and
    n2: "n2 = a2 @ CHR ''.'' # x2" "CHR ''.'' \<notin> set x2"
    by (meson split_list_last)
  have p1: "generateStoragePath n1 userId t1 r1 =
      userId @ ''/'' @ string_of_nat t1 @ ''-'' @ r1 @ CHR ''.'' # x1"
    unfolding n1(1) by (rule path_of_dotted [OF n1(2)])
  have p2: "generateStoragePath n2 userId t2 r2 =
      userId @ ''/'' @ string_of_nat t2 @ ''-'' @ r2 @ CHR ''.'' # x2"
    unfolding n2(1) by (rule path_of_dotted [OF n2(2)])
  have same_ext: "(\<exists>stem1 stem2 ext. n1 = stem1 @ CHR ''.'' # ext \<and> n2 = stem2 @ CHR ''.'' # ext
                \<and> CHR ''.'' \<notin> set ext) = (x1 = x2)"
  proof
    assume "\<exists>stem1 stem2 ext. n1 = stem1 @ CHR ''.'' # ext \<and> n2 = stem2 @ CHR ''.'' # ext
                \<and> CHR ''.'' \<notin> set ext"
    then obtain b1 b2 y where y: "n1 = b1 @ CHR ''.'' # y" "n2 = b2 @ CHR ''.'' # y"
      "CHR ''.'' \<notin> set y" by blast
    have "x1 = y"
      using y(1) n1 y(3) by (intro last_split_unique [of a1 "CHR ''.''" x1 b1 y]) simp_all
    moreover have "x2 = y"
      using y(2) n2 y(3) by (intro last_split_unique [of a2 "CHR ''.''" x2 b2 y]) simp_all
    ultimately show "x1 = x2" by simp
  next
    assume "x1 = x2"
    with n1 n2 show "\<exists>stem1 stem2 ext. n1 = stem1 @ CHR ''.'' # ext \<and> n2 = stem2 @ CHR ''.'' # ext
                \<and> CHR ''.'' \<notin> set ext" by blast
  qed
  have "(string_of_nat t1 @ CHR ''-'' # (r1 @ CHR ''.'' # x1) =
         string_of_nat t2 @ CHR ''-'' # (r2 @ CHR ''.'' # x2)) =
        (string_of_nat t1 = string_of_nat t2 \<and> r1 @ CHR ''.'' # x1 = r2 @ CHR ''.'' # x2)"
    by (rule split_at_first [OF string_of_nat_no_dash string_of_nat_no_dash])
  moreover have "(r1 @ CHR ''.'' # x1 = r2 @ CHR ''.'' # x2) = (r1 = r2 \<and> x1 = x2)"
    by (rule split_at_first [OF tokens])
  ultimately have "(generateStoragePath n1 userId t1 r1 = generateStoragePath n2 userId t2 r2) =
      (t1 = t2 \<and> r1 = r2 \<and> x1 = x2)"
    using string_of_nat_inj by (auto simp: p1 p2)
  with p1 n1 same_ext show ?thesis by blast
qed

text \<open>The same file name uploaded twice in one millisecond, with different tokens.\<close>

theorem storage_path_form_witness:
  "generateStoragePath ''photo.png'' ''u1'' 1735171200000 ''k3x9''
     = ''u1/1735171200000-k3x9.png''
   \<and> generateStoragePath ''photo.png'' ''u1'' 1735171200000 ''k3x9''
     \<noteq> generateStoragePath ''photo.png'' ''u1'' 1735171200000 ''q7''"
  using storage_path_form [of "''photo.png''" "''photo.png''" "''k3x9''" "''q7''" "''u1''"
      1735171200000 1735171200000]
  by (simp add: generateStoragePath_def substring_def string_of_nat.simps digit_char_def)

text \<open>
  The claim as stated fails twice. Two uploads of one file name that read the same
  clock value and draw the same token get the same path, and the second is refused by
  the bucket. A name without a dot contributes the whole name where the extension is
  expected (\<open>lastIndexOf\<close> is \<open>-1\<close> and \<open>substring\<close> starts at \<open>0\<close>).
\<close>

theorem storage_path_counterexample:
  "fst (uploadFiles (Some alice) [(png, env_at 1735171200000 ''k3x9'' None ''m2'')] None
         (snd (uploadFiles (Some alice) [(png, env_at 1735171200000 ''k3x9'' None ''m1'')] None
                (idle_uploader, empty_remote)))) = []
   \<and> map perror (uploadProgress (fst (snd
         (uploadFiles (Some alice) [(png, env_at 1735171200000 ''k3x9'' None ''m2'')] None
           (snd (uploadFiles (Some alice) [(png, env_at 1735171200000 ''k3x9'' None ''m1'')] None
                  (idle_uploader, empty_remote)))))))
       = [Some ''The resource already exists'']
   \<and> generateStoragePath ''README'' ''u1'' 1735171200000 ''k3x9''
       = ''u1/1735171200000-k3x9README''"
  by (simp add: upload_eval)

subsection \<open>Deleting an entry\<close>

text \<open>Evaluation of the entry store on the example data.\<close>

lemmas entry_eval =
  deleteEntry_def entries_delete_def createEntry_def entries_insert_returning_def entryData_def
  entry_row_def loadEntries_def entries_select_def called_def or_null_def or_else_def truthy_def
  Let_def row_of_def alice_def one_row_remote_def one_row_store_def

lemmas date_eval =
  iso_ms_def Date_parse_def date_part_def time_part_def digit_val_def days_from_civil_def
  msPerDay_def

text \<open>
  The claim C2 as stated fails: \<open>deleteEntry\<close> looks only at the error of the remote
  call, and a delete whose filter matches no row is not an error. Deleting the same
  entry a second time, deleting a row of another user (which stays in the table) and
  deleting an id that never existed all return true.
\<close>

theorem deleteEntry_twice_counterexample:
  "fst (deleteEntry (Some alice) ''e1'' None (one_row_store, one_row_remote)) = True
   \<and> fst (deleteEntry (Some alice) ''e1'' None
           (snd (deleteEntry (Some alice) ''e1'' None (one_row_store, one_row_remote)))) = True
   \<and> fst (deleteEntry (Some alice) ''e2'' None (one_row_store, one_row_remote)) = True
   \<and> map e_id (entries_tbl (snd (snd
           (deleteEntry (Some alice) ''e2'' None (one_row_store, one_row_remote)))))
       = [''e1'', ''e2'']
   \<and> fst (deleteEntry (Some alice) ''nothing'' None (one_row_store, one_row_remote)) = True"
  by (simp add: entry_eval)

text \<open>
  Claim C2, as amended. For a signed-in caller \<open>deleteEntry\<close> returns true exactly when
  the remote delete reports no error, whether or not a row matched. It then has removed
  the caller's row with that id from the table, and no other row, and every element
  with that id from the in-memory list; a second call with the same id returns true
  again and changes neither the table nor the list (only the trace of calls grows).
  When the remote call fails it returns false and the table and the in-memory state
  are unchanged.
\<close>

theorem deleteEntry_result:
  assumes "deleteEntry (Some u) eid fault (st, r) = (b, st', r')"
  shows "b = (fault = None)
     \<and> (if b
        then entries st' = filter (\<lambda>e. e_id e \<noteq> eid) (entries st)
           \<and> entries_tbl r' =
               filter (\<lambda>e. \<not> (e_id e = eid \<and> e_user_id e = uid u)) (entries_tbl r)
           \<and> deleteEntry (Some u) eid None (st', r')
               = (True, st', r'\<lparr> calls := calls r' @ [EntriesDelete eid (uid u)] \<rparr>)
        else st' = st \<and> entries_tbl r' = entries_tbl r)"
  using assms
  by (auto simp: deleteEntry_def entries_delete_def called_def Let_def split: option.splits)

theorem deleteEntry_result_witness:
  "fst (deleteEntry (Some alice) ''e1'' None (one_row_store, one_row_remote)) = True
   \<and> entries (fst (snd (deleteEntry (Some alice) ''e1'' None (one_row_store, one_row_remote))))
       = []
   \<and> map e_id (entries_tbl (snd (snd
         (deleteEntry (Some alice) ''e1'' None (one_row_store, one_row_remote))))) = [''e2'']"
  using deleteEntry_result [of alice "''e1''" None one_row_store one_row_remote
      "fst (deleteEntry (Some alice) ''e1'' None (one_row_store, one_row_remote))"
      "fst (snd (deleteEntry (Some alice) ''e1'' None (one_row_store, one_row_remote)))"
      "snd (snd (deleteEntry (Some alice) ''e1'' None (one_row_store, one_row_remote)))"]
  by (simp add: entry_eval)

subsection \<open>Creating an entry and listing\<close>

text \<open>
  The claim C3 as stated fails. A supplied text that is the empty string is not kept
  (the location of the created entry is null). And after a reload from the store the
  list is ordered by entry date, so an entry created with a past date is not the first
  element: here the reloaded list is the existing entry of 27 December, then the
  created entry of 26 December.
\<close>

theorem create_then_list_counterexample:
  "location_text past_form = Some []
   \<and> e_id (hd (entries (fst (snd
         (createEntry (Some alice) past_form ''2024-12-27T10:00:00.000Z'' None ''e9''
            ''2024-12-27T10:00:00.001Z'' (one_row_store, one_row_remote)))))) = ''e9''
   \<and> e_location_text (hd (entries (fst (snd
         (createEntry (Some alice) past_form ''2024-12-27T10:00:00.000Z'' None ''e9''
            ''2024-12-27T10:00:00.001Z'' (one_row_store, one_row_remote)))))) = None
   \<and> map e_id (entries (fst
         (loadEntries (Some alice) 10 None iso_ms (\<lambda>q e. True) None
           (snd (createEntry (Some alice) past_form ''2024-12-27T10:00:00.000Z'' None ''e9''
              ''2024-12-27T10:00:00.001Z'' (one_row_store, one_row_remote))))))
       = [''e1'', ''e9'']"
  by (simp add: entry_eval past_form_def date_eval)

text \<open>
  A row whose date is later than every date in a list comes first when it is added
  and the list is sorted by descending date.
\<close>

lemma insort_behind_front:
  fixes f :: "'a \<Rightarrow> int"
  shows "\<forall>x\<in>set xs. f e < f x \<Longrightarrow>
     foldr (insort_key f) xs (e # ys) = e # foldr (insort_key f) xs ys"
  by (induction xs) auto

lemma sort_key_latest_last:
  fixes f :: "'a \<Rightarrow> int"
  shows "\<forall>x\<in>set xs. f e < f x \<Longrightarrow> sort_key f (xs @ [e]) = e # sort_key f xs"
  by (simp add: sort_key_def insort_behind_front)

lemma createEntry_inserted:
  "createEntry (Some u) d now_iso None new_id now_db (st, r) =
     (Some (entry_row new_id now_db (entryData u d now_iso)),
      st\<lparr> entries := entry_row new_id now_db (entryData u d now_iso) # entries st \<rparr>,
      r\<lparr> calls := calls r @ [EntriesInsert (entryData u d now_iso)],
         entries_tbl := entries_tbl r @ [entry_row new_id now_db (entryData u d now_iso)] \<rparr>)"
  by (simp add: createEntry_def entries_insert_returning_def called_def Let_def)

lemma loadEntries_listed:
  "entries (fst (loadEntries (Some u) limit None ts ilike None (st, r))) =
     take limit (sort_key (\<lambda>e. - ts (e_entry_date e))
                  (filter (\<lambda>e. e_user_id e = uid u) (entries_tbl r)))"
  by (simp add: loadEntries_def entries_select_def called_def Let_def)

text \<open>
  Claim C3, as amended. A successful \<open>createEntry\<close> stores the row and puts the created
  entry in front of the in-memory list. The created entry has the supplied title, and
  its content is the document with the supplied content under \<open>text\<close> and the supplied
  tags (none when absent) under \<open>tags\<close>. The entry date, the location and the weather
  are the supplied texts when these are not empty; otherwise they are the current
  time, null and null. A list that follows immediately, with no search query and no
  remote change in between, yields the caller's stored rows, the created one among
  them, in descending order of entry date and cut at the limit; the created entry is
  its first element whenever its entry date is later than that of every other entry
  of the caller and the limit is at least one.
\<close>

theorem create_then_list_round_trip:
  assumes created: "createEntry (Some u) d now_iso None new_id now_db (st, r) = (res, st', r')"
    and listed: "loadEntries (Some u) limit None ts ilike None (st', r') = (st'', r'')"
  shows "\<exists>e. res = Some e
     \<and> entries st' = e # entries st
     \<and> entries_tbl r' = entries_tbl r @ [e]
     \<and> entries st'' =
         take limit (sort_key (\<lambda>x. - ts (e_entry_date x))
                      (filter (\<lambda>x. e_user_id x = uid u) (entries_tbl r @ [e])))
     \<and> ((\<forall>x\<in>set (entries_tbl r).
            e_user_id x = uid u \<longrightarrow> ts (e_entry_date x) < ts (e_entry_date e))
          \<and> 0 < limit \<longrightarrow>
         entries st'' =
           e # take (limit - 1) (sort_key (\<lambda>x. - ts (e_entry_date x))
                                  (filter (\<lambda>x. e_user_id x = uid u) (entries_tbl r))))
     \<and> e_id e = new_id \<and> e_user_id e = uid u
     \<and> e_title e = title d
     \<and> e_content e = JObj [(''text'', content d),
          (''tags'', JArr (map JStr (case tags d of None \<Rightarrow> [] | Some t \<Rightarrow> t)))]
     \<and> (if truthy (entry_date d) then entry_date d = Some (e_entry_date e)
         else e_entry_date e = now_iso)
     \<and> (if truthy (location_text d) then e_location_text e = location_text d
         else e_location_text e = None)
     \<and> (if truthy (weather_summary d) then e_weather_summary e = weather_summary d
         else e_weather_summary e = None)"
proof -
  let ?e = "entry_row new_id now_db (entryData u d now_iso)"
  let ?key = "\<lambda>x. - ts (e_entry_date x)"
  let ?mine = "\<lambda>x. e_user_id x = uid u"
  from created have res: "res = Some ?e" and st': "entries st' = ?e # entries st"
    and r': "entries_tbl r' = entries_tbl r @ [?e]"
    by (auto simp: createEntry_inserted)
  have owner: "e_user_id ?e = uid u"
    by (simp add: entry_row_def entryData_def)
  from listed have "st'' = fst (loadEntries (Some u) limit None ts ilike None (st', r'))"
    by simp
  then have st'': "entries st'' = take limit (sort_key ?key (filter ?mine (entries_tbl r @ [?e])))"
    by (simp add: loadEntries_listed r')
  have first: "entries st'' = ?e # take (limit - 1) (sort_key ?key (filter ?mine (entries_tbl r)))"
    if latest: "\<forall>x\<in>set (entries_tbl r). e_user_id x = uid u \<longrightarrow>
        ts (e_entry_date x) < ts (e_entry_date ?e)" and lim: "0 < limit"
  proof -
    have "\<forall>x\<in>set (filter ?mine (entries_tbl r)). ?key ?e < ?key x"
      using latest by simp
    then have "sort_key ?key (filter ?mine (entries_tbl r) @ [?e]) =
        ?e # sort_key ?key (filter ?mine (entries_tbl r))"
      by (rule sort_key_latest_last)
    with lim show ?thesis
      by (simp add: st'' owner take_Cons')
  qed
  have fields: "e_id ?e = new_id" "e_title ?e = title d"
    "e_content ?e = JObj [(''text'', content d),
          (''tags'', JArr (map JStr (case tags d of None \<Rightarrow> [] | Some t \<Rightarrow> t)))]"
    "if truthy (entry_date d) then entry_date d = Some (e_entry_date ?e)
         else e_entry_date ?e = now_iso"
    "if truthy (location_text d) then e_location_text ?e = location_text d
         else e_location_text ?e = None"
    "if truthy (weather_summary d) then e_weather_summary ?e = weather_summary d
         else e_weather_summary ?e = None"
    by (auto simp: entry_row_def entryData_def or_null_def or_else_def truthy_def
        split: option.splits)
  show ?thesis
    using res st' r' st'' first owner fields by blast
qed

text \<open>
  An entry dated 28 December, created beside an entry of 27 December: it is first in
  the in-memory list after the create and first again after the reload.
\<close>

theorem create_then_list_round_trip_witness:
  "map e_id (entries (fst (loadEntries (Some alice) 10 None iso_ms (\<lambda>q e. True) None
       (snd (createEntry (Some alice) full_form ''2024-12-28T10:00:00.000Z'' None ''e9''
              ''2024-12-28T10:00:00.001Z'' (one_row_store, one_row_remote))))))
     = [''e9'', ''e1'']
   \<and> hd (entries (fst (loadEntries (Some alice) 10 None iso_ms (\<lambda>q e. True) None
       (snd (createEntry (Some alice) full_form ''2024-12-28T10:00:00.000Z'' None ''e9''
              ''2024-12-28T10:00:00.001Z'' (one_row_store, one_row_remote))))))
     = \<lparr> e_id = ''e9'', e_user_id = ''u1'', e_title = ''Walk'',
          e_content = JObj [(''text'', JStr ''quiet''),
                            (''tags'', JArr [JStr ''park'', JStr ''dog''])],
          e_entry_date = ''2024-12-28T08:00:00.000Z'', e_location_text = Some ''Park'',
          e_weather_summary = Some ''Sunny'', e_created_at = ''2024-12-28T10:00:00.001Z'',
          e_updated_at = ''2024-12-28T10:00:00.001Z'' \<rparr>
   \<and> entries (fst (snd (createEntry (Some alice) full_form ''2024-12-28T10:00:00.000Z'' None
          ''e9'' ''2024-12-28T10:00:00.001Z'' (one_row_store, one_row_remote))))
     = [hd (entries (fst (loadEntries (Some alice) 10 None iso_ms (\<lambda>q e. True) None
          (snd (createEntry (Some alice) full_form ''2024-12-28T10:00:00.000Z'' None ''e9''
              ''2024-12-28T10:00:00.001Z'' (one_row_store, one_row_remote)))))),
        row_of ''e1'' ''u1'' ''2024-12-27T08:00:00.000Z'']"
  using create_then_list_round_trip [where u = alice and d = full_form
      and now_iso = "''2024-12-28T10:00:00.000Z''" and new_id = "''e9''"
      and now_db = "''2024-12-28T10:00:00.001Z''" and st = one_row_store and r = one_row_remote
      and limit = 10 and ts = iso_ms and ilike = "\<lambda>q e. True"
      and res = "fst (createEntry (Some alice) full_form ''2024-12-28T10:00:00.000Z'' None ''e9''
            ''2024-12-28T10:00:00.001Z'' (one_row_store, one_row_remote))"
      and st' = "fst (snd (createEntry (Some alice) full_form ''2024-12-28T10:00:00.000Z'' None ''e9''
            ''2024-12-28T10:00:00.001Z'' (one_row_store, one_row_remote)))"
      and r' = "snd (snd (createEntry (Some alice) full_form ''2024-12-28T10:00:00.000Z'' None ''e9''
            ''2024-12-28T10:00:00.001Z'' (one_row_store, one_row_remote)))"
      and st'' = "fst (loadEntries (Some alice) 10 None iso_ms (\<lambda>q e. True) None
           (snd (createEntry (Some alice) full_form ''2024-12-28T10:00:00.000Z'' None ''e9''
              ''2024-12-28T10:00:00.001Z'' (one_row_store, one_row_remote))))"
      and r'' = "snd (loadEntries (Some alice) 10 None iso_ms (\<lambda>q e. True) None
           (snd (createEntry (Some alice) full_form ''2024-12-28T10:00:00.000Z'' None ''e9''
              ''2024-12-28T10:00:00.001Z'' (one_row_store, one_row_remote))))"]
  by (simp add: entry_eval full_form_def date_eval)

subsection \<open>Entries of a day\<close>

lemma date_part_midnight: "date_part s = Some t \<Longrightarrow> t mod msPerDay = 0"
  by (auto simp: date_part_def split: if_splits option.splits)

lemma Date_parse_date_only: "length s = 10 \<Longrightarrow> Date_parse s = date_part s"
  by (simp add: Date_parse_def)

lemma setHours_of_midnight:
  assumes "t mod msPerDay = 0" "0 \<le> tz" "tz < msPerDay"
  shows "setHours tz t h m s ms = t - tz + (h * 3600000 + m * 60000 + s * 1000 + ms)"
proof -
  have "(t + tz) mod msPerDay = tz"
    using assms by (simp add: mod_add_left_eq [symmetric])
  then show ?thesis
    by (simp add: setHours_def Let_def)
qed

lemma entries_select_rows:
  "entries_select None owner cond ts None r =
     (Data (sort_key (\<lambda>e. - ts (e_entry_date e))
            (filter (\<lambda>e. e_user_id e = owner \<and> cond e) (entries_tbl r))),
      called (EntriesSelect owner) r)"
  by (simp add: entries_select_def Let_def)

lemmas day_eval =
  getEntriesByDate_def entries_select_def setHours_def called_def Let_def row_of_def alice_def
  day_remote_def

text \<open>
  The claim C7 as stated fails: the bounds are set in local time, so the interval
  depends on the zone of the runtime. One hour east of UTC the entry of
  \<open>2024-12-26T23:59:59.999Z\<close> is not returned for \<open>2024-12-26\<close>. Five hours west of UTC
  the date-only string, read as midnight UTC, falls on the evening of the 25th local
  time, and the entries returned are those of the local 25th.
\<close>

theorem getEntriesByDate_zone_counterexample:
  "map e_id (fst (getEntriesByDate (Some alice) ''2024-12-26'' 3600000 iso_ms None day_remote))
     = [''start'']
   \<and> map e_id (fst (getEntriesByDate (Some alice) ''2024-12-26'' (- 18000000) iso_ms None
        day_remote))
     = [''start'', ''eve'']"
  by (simp add: day_eval date_eval)

text \<open>
  Claim C7, as amended. Let the date be a date-only string \<open>YYYY-MM-DD\<close>, so that it
  parses to its midnight UTC \<open>t\<close>, and let the runtime's zone be a fixed offset \<open>tz\<close> at or
  east of UTC. Then \<open>getEntriesByDate\<close> returns exactly the caller's entries whose entry
  date lies between 00:00:00.000 and 23:59:59.999 local time of that day, both
  included, that is between \<open>t - tz\<close> and \<open>t - tz + 86399999\<close>, in descending order of
  entry date. In a UTC runtime this is the claim's interval.
\<close>

theorem getEntriesByDate_local_day:
  assumes date_only: "length date = 10"
    and parsed: "Date_parse date = Some t"
    and zone: "0 \<le> tz" "tz < msPerDay"
  shows "t mod msPerDay = 0
     \<and> mset (fst (getEntriesByDate (Some u) date tz ts None r)) =
         mset (filter (\<lambda>e. e_user_id e = uid u
                 \<and> t - tz \<le> ts (e_entry_date e)
                 \<and> ts (e_entry_date e) \<le> t - tz + 86399999) (entries_tbl r))
     \<and> sorted_wrt (\<lambda>a b. ts (e_entry_date b) \<le> ts (e_entry_date a))
         (fst (getEntriesByDate (Some u) date tz ts None r))"
proof -
  from date_only parsed have midnight: "t mod msPerDay = 0"
    by (simp add: Date_parse_date_only date_part_midnight)
  have start: "setHours tz t 0 0 0 0 = t - tz"
    and stop: "setHours tz t 23 59 59 999 = t - tz + 86399999"
    using setHours_of_midnight [OF midnight zone] by simp_all
  let ?day = "\<lambda>e. t - tz \<le> ts (e_entry_date e) \<and> ts (e_entry_date e) \<le> t - tz + 86399999"
  let ?rows = "sort_key (\<lambda>e. - ts (e_entry_date e))
                 (filter (\<lambda>e. e_user_id e = uid u \<and> ?day e) (entries_tbl r))"
  have res: "fst (getEntriesByDate (Some u) date tz ts None r) = ?rows"
    by (simp add: getEntriesByDate_def parsed start stop Let_def entries_select_rows)
  have "sorted (map (\<lambda>e. - ts (e_entry_date e)) ?rows)"
    by (rule sorted_sort_key)
  then have "sorted_wrt (\<lambda>a b. ts (e_entry_date b) \<le> ts (e_entry_date a)) ?rows"
    by (simp add: sorted_map)
  with midnight show ?thesis
    by (simp add: res)
qed

text \<open>
  In a UTC runtime the entry of \<open>2024-12-26T23:59:59.999Z\<close> is returned for
  \<open>2024-12-26\<close> and the entry of \<open>2024-12-27T00:00:00.000Z\<close> is not.
\<close>

theorem getEntriesByDate_local_day_witness:
  "map e_id (fst (getEntriesByDate (Some alice) ''2024-12-26'' 0 iso_ms None day_remote))
     = [''late'', ''start'']
   \<and> Date_parse ''2024-12-26'' = Some 1735171200000"
  using getEntriesByDate_local_day [where date = "''2024-12-26''" and t = 1735171200000
      and tz = 0 and u = alice and ts = iso_ms and r = day_remote]
  by (simp add: day_eval date_eval)

end
